theory Spec2Isabelle
  imports Complex_Main "HOL-Library.AList"
begin

section \<open>Scalable GIS: the proximity and accessibility notebook\<close>

text \<open>
  The notebook \<^verbatim>\<open>02-accessibility-analysis-multi-city.ipynb\<close> defines five Python
  functions (\<^verbatim>\<open>load_features\<close>, \<^verbatim>\<open>build_network\<close>, \<^verbatim>\<open>proximity_analysis\<close>,
  \<^verbatim>\<open>accessibility_analysis\<close>, \<^verbatim>\<open>plot\<close>) and runs them serially, through Dask Delayed
  and through Dask Bags. Everything else is a call into geopandas, pandana, matplotlib
  or dask. The functions of the notebook are embedded as they are written; the
  libraries they call are parameters of the embedding (the record \<open>collab\<close>), and a
  Python exception is the left summand of the result.
\<close>

subsection \<open>Errors\<close>

text \<open>
  The first five are the error taxonomy of the specification; \<open>KeyError\<close> is what
  pandas raises for a column that is not there, \<open>BoundsError\<close> the refusal of a query
  that exceeds what was registered.
\<close>

datatype error =
    NotFound
  | FormatError
  | ReferentialIntegrityError
  | LookupError
  | IOError
  | KeyError
  | BoundsError

subsection \<open>Data frames\<close>

text \<open>
  A cell of a table: an integer, a float (idealised as a real), a string, the missing
  value, or a tuple (a label of a multi-level index).
\<close>

datatype cell = IntC int | NumC real | StrC string | NaN | TupC "cell list"

text \<open>A pandas Series: the index labels with their values, in order.\<close>

type_synonym series = "(cell \<times> cell) list"

text \<open>
  A DataFrame has a row index and named columns, in order; a GeoDataFrame has a
  geometry column besides.
\<close>

record dataframe =
  index :: "cell list"
  columns :: "(string \<times> cell list) list"

record 'g geodataframe = dataframe +
  geometry :: "'g list"

text \<open>A frame is well formed when its columns are as long as its index.\<close>

definition well_formed :: "'g geodataframe \<Rightarrow> bool" where
  "well_formed df =
     (length (geometry df) = length (index df)
      \<and> list_all (\<lambda>(key, col). length col = length (index df)) (columns df))"

text \<open>\<^verbatim>\<open>df[key]\<close>: the column as a Series on the frame's index; \<open>KeyError\<close> without it.\<close>

definition getitem :: "'a dataframe_scheme \<Rightarrow> string \<Rightarrow> error + series" where
  "getitem df key =
     (case map_of (columns df) key of
        None \<Rightarrow> Inl KeyError
      | Some vs \<Rightarrow> Inr (zip (index df) vs))"

text \<open>\<^verbatim>\<open>df[[k1, ..., kn]]\<close>: the sub-frame of the listed columns, a plain DataFrame.\<close>

definition getitems :: "'a dataframe_scheme \<Rightarrow> string list \<Rightarrow> error + dataframe" where
  "getitems df keys =
     (case those (map (map_of (columns df)) keys) of
        None \<Rightarrow> Inl KeyError
      | Some cols \<Rightarrow> Inr \<lparr>index = index df, columns = zip keys cols\<rparr>)"

text \<open>
  \<^verbatim>\<open>df.set_index(keys, drop=False)\<close>: a new frame whose index holds the values of
  the key columns (tuples for several keys); the columns stay. The frame it is called
  on is not changed: the result is a new value.
\<close>

definition set_index :: "string list \<Rightarrow> 'a dataframe_scheme \<Rightarrow> error + 'a dataframe_scheme" where
  "set_index keys df =
     (case those (map (map_of (columns df)) keys) of
        None \<Rightarrow> Inl KeyError
      | Some cols \<Rightarrow>
          Inr (df\<lparr>index := (case cols of [c] \<Rightarrow> c | _ \<Rightarrow> map TupC (transpose cols))\<rparr>))"

text \<open>
  \<^verbatim>\<open>df[key] = s\<close> for a Series \<open>s\<close> on the index of \<open>df\<close>: the column is replaced
  where it stands, or appended as the last column.
\<close>

definition setitem :: "'a dataframe_scheme \<Rightarrow> string \<Rightarrow> series \<Rightarrow> 'a dataframe_scheme" where
  "setitem df key s = df\<lparr>columns := AList.update key (map snd s) (columns df)\<rparr>"

text \<open>\<^verbatim>\<open>s.to_dict()\<close>: a later entry of a repeated label wins.\<close>

definition to_dict :: "series \<Rightarrow> (cell \<rightharpoonup> cell)" where
  "to_dict s = map_of (rev s)"

text \<open>\<^verbatim>\<open>s.map(d)\<close> for a dict \<open>d\<close>: a value that is no key of \<open>d\<close> becomes NaN.\<close>

definition series_map :: "(cell \<rightharpoonup> cell) \<Rightarrow> series \<Rightarrow> series" where
  "series_map d s = map (\<lambda>(l, v). (l, case d v of None \<Rightarrow> NaN | Some w \<Rightarrow> w)) s"

subsection \<open>The libraries the notebook calls\<close>

text \<open>
  What \<^verbatim>\<open>plot\<close> draws: the park geometries, and the building geometries with the
  value that colours each.
\<close>

record 'g figure =
  fig_parks :: "'g list"
  fig_buildings :: "('g \<times> cell) list"

text \<open>
  None of geopandas' geometry, pandana and matplotlib is code of the repository. Their
  operations are fields of a record that every function of the notebook takes as its
  first argument, so a theorem about all records is a theorem about the notebook's own
  code whatever the libraries do. \<open>'g\<close> is the type of geometries, \<open>'net\<close> the state
  of a \<^verbatim>\<open>pandana.Network\<close> object; the methods that change the network return the
  new state. \<^verbatim>\<open>network.set\<close> is \<open>set_var\<close>; \<open>savefig\<close> writes a figure to a path.
\<close>

record ('g, 'net) collab =
  centroid :: "'g \<Rightarrow> cell \<times> cell"
  Network :: "series \<Rightarrow> series \<Rightarrow> series \<Rightarrow> series \<Rightarrow> dataframe \<Rightarrow> error + 'net"
  set_pois :: "'net \<Rightarrow> string \<Rightarrow> real \<Rightarrow> nat \<Rightarrow> series \<Rightarrow> series \<Rightarrow> error + 'net"
  nearest_pois :: "'net \<Rightarrow> real \<Rightarrow> string \<Rightarrow> nat \<Rightarrow> bool \<Rightarrow> error + dataframe"
  nearest_node :: "'net \<Rightarrow> cell \<Rightarrow> cell \<Rightarrow> error + cell"
  set_var :: "'net \<Rightarrow> series \<Rightarrow> string \<Rightarrow> error + 'net"
  aggregate :: "'net \<Rightarrow> real \<Rightarrow> string \<Rightarrow> string \<Rightarrow> error + series"
  savefig :: "string list \<Rightarrow> 'g figure \<Rightarrow> error + unit"

text \<open>\<^verbatim>\<open>df.centroid.x\<close> and \<^verbatim>\<open>df.centroid.y\<close>: Series on the index of the frame.\<close>

definition centroid_x :: "('g, 'net) collab \<Rightarrow> 'g geodataframe \<Rightarrow> series" where
  "centroid_x X df = zip (index df) (map (fst \<circ> centroid X) (geometry df))"

definition centroid_y :: "('g, 'net) collab \<Rightarrow> 'g geodataframe \<Rightarrow> series" where
  "centroid_y X df = zip (index df) (map (snd \<circ> centroid X) (geometry df))"

text \<open>
  \<^verbatim>\<open>network.get_node_ids(x_col, y_col)\<close> snaps every point to its nearest node and
  answers a Series on the index of \<open>x_col\<close>. It is one vectorised call: when the
  lookup of one point raises, the call raises and no Series is returned.
\<close>

fun snap_points :: "('g, 'net) collab \<Rightarrow> 'net \<Rightarrow> (cell \<times> cell \<times> cell) list \<Rightarrow> error + series" where
  "snap_points X net [] = Inr []"
| "snap_points X net ((l, x, y) # ps) =
     (case nearest_node X net x y of
        Inl e \<Rightarrow> Inl e
      | Inr node_id \<Rightarrow>
          (case snap_points X net ps of
             Inl e \<Rightarrow> Inl e
           | Inr rest \<Rightarrow> Inr ((l, node_id) # rest)))"

definition get_node_ids :: "('g, 'net) collab \<Rightarrow> 'net \<Rightarrow> series \<Rightarrow> series \<Rightarrow> error + series" where
  "get_node_ids X net x_col y_col =
     snap_points X net (map (\<lambda>((l, x), (_, y)). (l, x, y)) (zip x_col y_col))"

text \<open>The points that \<^verbatim>\<open>get_node_ids\<close> snaps for the centroids of a layer.\<close>

definition centroid_points :: "('g, 'net) collab \<Rightarrow> 'g geodataframe \<Rightarrow> (cell \<times> cell \<times> cell) list" where
  "centroid_points X df =
     map (\<lambda>((l, x), (_, y)). (l, x, y)) (zip (centroid_x X df) (centroid_y X df))"

subsection \<open>The analysis functions of the notebook\<close>

text \<open>
  \<^verbatim>\<open>build_network(nodes, edges, parks)\<close>. The two \<^verbatim>\<open>set_index\<close> calls rebind the
  local names to new frames; the arguments of \<^verbatim>\<open>pandana.Network\<close> are evaluated
  left to right.
\<close>

definition build_network ::
  "('g, 'net) collab \<Rightarrow> 'g geodataframe \<Rightarrow> 'g geodataframe \<Rightarrow> 'g geodataframe \<Rightarrow> error + 'net" where
  "build_network X nodes edges parks =
     (case set_index [''osmid''] nodes of Inl e \<Rightarrow> Inl e | Inr nodes \<Rightarrow>
      case set_index [''u'', ''v''] edges of Inl e \<Rightarrow> Inl e | Inr edges \<Rightarrow>
      case getitem nodes ''x'' of Inl e \<Rightarrow> Inl e | Inr node_x \<Rightarrow>
      case getitem nodes ''y'' of Inl e \<Rightarrow> Inl e | Inr node_y \<Rightarrow>
      case getitem edges ''u'' of Inl e \<Rightarrow> Inl e | Inr edge_from \<Rightarrow>
      case getitem edges ''v'' of Inl e \<Rightarrow> Inl e | Inr edge_to \<Rightarrow>
      case getitems edges [''length''] of Inl e \<Rightarrow> Inl e | Inr edge_weights \<Rightarrow>
      case Network X node_x node_y edge_from edge_to edge_weights of Inl e \<Rightarrow> Inl e | Inr network \<Rightarrow>
      set_pois X network ''parks'' 1000 25 (centroid_x X parks) (centroid_y X parks))"

text \<open>\<^verbatim>\<open>proximity_analysis(nodes, edges, parks)\<close>.\<close>

definition proximity_analysis ::
  "('g, 'net) collab \<Rightarrow> 'g geodataframe \<Rightarrow> 'g geodataframe \<Rightarrow> 'g geodataframe \<Rightarrow> error + dataframe" where
  "proximity_analysis X nodes edges parks =
     (case build_network X nodes edges parks of Inl e \<Rightarrow> Inl e | Inr network \<Rightarrow>
      nearest_pois X network 800 ''parks'' 3 False)"

text \<open>
  \<^verbatim>\<open>accessibility_analysis(nodes, edges, parks, buildings, d=800)\<close>. Its last
  statement before the return assigns a column of the frame that the caller passed
  as \<^verbatim>\<open>buildings\<close>, and the function returns that same object. So the frames live in
  a store \<open>h\<close> from object identities to frames, the arguments are identities, and
  the result is the new store with the identity returned.
\<close>

definition accessibility_analysis ::
  "('g, 'net) collab \<Rightarrow> ('r \<Rightarrow> 'g geodataframe) \<Rightarrow> 'r \<Rightarrow> 'r \<Rightarrow> 'r \<Rightarrow> 'r \<Rightarrow> real
     \<Rightarrow> error + (('r \<Rightarrow> 'g geodataframe) \<times> 'r)" where
  "accessibility_analysis X h nodes edges parks buildings d =
     (case build_network X (h nodes) (h edges) (h parks) of Inl e \<Rightarrow> Inl e | Inr network \<Rightarrow>
      case get_node_ids X network (centroid_x X (h parks)) (centroid_y X (h parks)) of
        Inl e \<Rightarrow> Inl e | Inr node_ids \<Rightarrow>
      case set_var X network node_ids ''parks'' of Inl e \<Rightarrow> Inl e | Inr network \<Rightarrow>
      case aggregate X network d ''count'' ''parks'' of Inl e \<Rightarrow> Inl e | Inr accessibility \<Rightarrow>
      case get_node_ids X network (centroid_x X (h buildings)) (centroid_y X (h buildings)) of
        Inl e \<Rightarrow> Inl e | Inr node_ids \<Rightarrow>
      Inr (h(buildings := setitem (h buildings) ''accessibility''
                            (series_map (to_dict accessibility) node_ids)),
           buildings))"

subsection \<open>Loading and plotting\<close>

text \<open>
  A path is the list of its components. A file of the data folder either parses as a
  geometry layer or does not.
\<close>

datatype 'g content = Shapefile "'g geodataframe" | Unparsable

type_synonym 'g filesystem = "string list \<Rightarrow> 'g content option"

text \<open>
  Modelled from the spec: \<^verbatim>\<open>gpd.read_file\<close> is geopandas, not code of the repository.
  Sections 4.1 and 7 name its failures: NotFound for a file that is absent,
  FormatError for a file that cannot be parsed as geometry.
\<close>

definition read_file :: "'g filesystem \<Rightarrow> string list \<Rightarrow> error + 'g geodataframe" where
  "read_file fs file_path =
     (case fs file_path of
        None \<Rightarrow> Inl NotFound
      | Some Unparsable \<Rightarrow> Inl FormatError
      | Some (Shapefile df) \<Rightarrow> Inr df)"

text \<open>
  \<^verbatim>\<open>load_features(data_folder, city, features)\<close>; \<open>city\<close> and \<open>features\<close> are names
  (single path components).
\<close>

definition load_features ::
  "'g filesystem \<Rightarrow> string list \<Rightarrow> string \<Rightarrow> string \<Rightarrow> error + 'g geodataframe" where
  "load_features fs data_folder city features =
     (let file_path = data_folder @ [city, features @ ''_'' @ city @ ''.shp'']
      in read_file fs file_path)"

text \<open>
  \<^verbatim>\<open>plot(city, parks, buildings, fig_folder)\<close> returns nothing; its effect is the file
  it saves, and that file is the result here.
\<close>

definition plot ::
  "('g, 'net) collab \<Rightarrow> string \<Rightarrow> 'g geodataframe \<Rightarrow> 'g geodataframe \<Rightarrow> string list
     \<Rightarrow> error + (string list \<times> 'g figure)" where
  "plot X city parks buildings fig_folder =
     (case getitem buildings ''accessibility'' of Inl e \<Rightarrow> Inl e | Inr colour \<Rightarrow>
      let fig = \<lparr>fig_parks = geometry parks,
                 fig_buildings = zip (geometry buildings) (map snd colour)\<rparr>;
          fig_path = fig_folder @ [city @ ''.png'']
      in case savefig X fig_path fig of Inl e \<Rightarrow> Inl e | Inr _ \<Rightarrow> Inr (fig_path, fig))"

subsection \<open>Running the analysis for one city\<close>

text \<open>
  The four layers of a run are four objects, each returned by its own call of
  \<^verbatim>\<open>load_features\<close>.
\<close>

datatype layer = Nodes | Edges | Parks | Buildings

definition objects ::
  "'g geodataframe \<Rightarrow> 'g geodataframe \<Rightarrow> 'g geodataframe \<Rightarrow> 'g geodataframe
     \<Rightarrow> layer \<Rightarrow> 'g geodataframe" where
  "objects nodes edges parks buildings l =
     (case l of Nodes \<Rightarrow> nodes | Edges \<Rightarrow> edges | Parks \<Rightarrow> parks | Buildings \<Rightarrow> buildings)"

text \<open>
  The serial cells of section 3: the four loads, then \<^verbatim>\<open>proximity_analysis\<close>, then
  \<^verbatim>\<open>accessibility_analysis\<close> with its default \<open>d = 800\<close>. The result is the pair
  \<^verbatim>\<open>(proximity, accessibility)\<close>.
\<close>

definition run_serial ::
  "('g, 'net) collab \<Rightarrow> 'g filesystem \<Rightarrow> string list \<Rightarrow> string
     \<Rightarrow> error + (dataframe \<times> 'g geodataframe)" where
  "run_serial X fs data_folder city =
     (case load_features fs data_folder city ''parks'' of Inl e \<Rightarrow> Inl e | Inr parks \<Rightarrow>
      case load_features fs data_folder city ''nodes'' of Inl e \<Rightarrow> Inl e | Inr nodes \<Rightarrow>
      case load_features fs data_folder city ''edges'' of Inl e \<Rightarrow> Inl e | Inr edges \<Rightarrow>
      case load_features fs data_folder city ''buildings'' of Inl e \<Rightarrow> Inl e | Inr buildings \<Rightarrow>
      case proximity_analysis X nodes edges parks of Inl e \<Rightarrow> Inl e | Inr proximity \<Rightarrow>
      case accessibility_analysis X (objects nodes edges parks buildings)
             Nodes Edges Parks Buildings 800 of
        Inl e \<Rightarrow> Inl e
      | Inr (h, accessibility) \<Rightarrow> Inr (proximity, h accessibility))"

subsection \<open>Dask Delayed\<close>

text \<open>
  \<^verbatim>\<open>delayed(f)(args)\<close> runs nothing: it builds a node of a task graph. The nodes the
  notebook builds are calls of its three functions, on paths and names or on other
  nodes. A node that yields a layer is a \<open>layer_task\<close>, the proximity node yields a
  table.
\<close>

datatype layer_task =
    LoadFeatures "string list" string string
  | AccessibilityAnalysis layer_task layer_task layer_task layer_task

datatype table_task = ProximityAnalysis layer_task layer_task layer_task

text \<open>
  A task that calls \<^verbatim>\<open>accessibility_analysis\<close> passes it the four objects that the
  tasks it depends on returned, and yields the object the call returns.
\<close>

definition accessibility_task ::
  "('g, 'net) collab \<Rightarrow> 'g geodataframe \<Rightarrow> 'g geodataframe \<Rightarrow> 'g geodataframe
     \<Rightarrow> 'g geodataframe \<Rightarrow> error + 'g geodataframe" where
  "accessibility_task X nodes edges parks buildings =
     (case accessibility_analysis X (objects nodes edges parks buildings)
             Nodes Edges Parks Buildings 800 of
        Inl e \<Rightarrow> Inl e
      | Inr (h, accessibility) \<Rightarrow> Inr (h accessibility))"

text \<open>
  \<^verbatim>\<open>dask.compute\<close> evaluates a node after the nodes it depends on; an exception of a
  task is raised by \<^verbatim>\<open>dask.compute\<close>. (Which of several failing tasks is reported is
  the scheduler's choice; here it is the first in argument order. A node that two
  tasks depend on is evaluated once by dask and once for each of them here:
  \<^verbatim>\<open>load_features\<close> only reads, so the value is the same.)
\<close>

fun compute_layer ::
  "('g, 'net) collab \<Rightarrow> 'g filesystem \<Rightarrow> layer_task \<Rightarrow> error + 'g geodataframe" where
  "compute_layer X fs (LoadFeatures data_folder city features) =
     load_features fs data_folder city features"
| "compute_layer X fs (AccessibilityAnalysis nodes_p edges_p parks_p buildings_p) =
     (case compute_layer X fs nodes_p of Inl e \<Rightarrow> Inl e | Inr nodes \<Rightarrow>
      case compute_layer X fs edges_p of Inl e \<Rightarrow> Inl e | Inr edges \<Rightarrow>
      case compute_layer X fs parks_p of Inl e \<Rightarrow> Inl e | Inr parks \<Rightarrow>
      case compute_layer X fs buildings_p of Inl e \<Rightarrow> Inl e | Inr buildings \<Rightarrow>
      accessibility_task X nodes edges parks buildings)"

fun compute_table ::
  "('g, 'net) collab \<Rightarrow> 'g filesystem \<Rightarrow> table_task \<Rightarrow> error + dataframe" where
  "compute_table X fs (ProximityAnalysis nodes_p edges_p parks_p) =
     (case compute_layer X fs nodes_p of Inl e \<Rightarrow> Inl e | Inr nodes \<Rightarrow>
      case compute_layer X fs edges_p of Inl e \<Rightarrow> Inl e | Inr edges \<Rightarrow>
      case compute_layer X fs parks_p of Inl e \<Rightarrow> Inl e | Inr parks \<Rightarrow>
      proximity_analysis X nodes edges parks)"

text \<open>\<^verbatim>\<open>dask.compute(proximity_p, accessibility_p)\<close>.\<close>

definition compute ::
  "('g, 'net) collab \<Rightarrow> 'g filesystem \<Rightarrow> table_task \<times> layer_task
     \<Rightarrow> error + (dataframe \<times> 'g geodataframe)" where
  "compute X fs graph =
     (case compute_table X fs (fst graph) of Inl e \<Rightarrow> Inl e | Inr proximity \<Rightarrow>
      case compute_layer X fs (snd graph) of Inl e \<Rightarrow> Inl e | Inr accessibility \<Rightarrow>
      Inr (proximity, accessibility))"

text \<open>The graph the cells of section 4 build for a city.\<close>

definition delayed_graph :: "string list \<Rightarrow> string \<Rightarrow> table_task \<times> layer_task" where
  "delayed_graph data_folder city =
     (let parks_p = LoadFeatures data_folder city ''parks'';
          nodes_p = LoadFeatures data_folder city ''nodes'';
          edges_p = LoadFeatures data_folder city ''edges'';
          buildings_p = LoadFeatures data_folder city ''buildings'';
          proximity_p = ProximityAnalysis nodes_p edges_p parks_p;
          accessibility_p = AccessibilityAnalysis nodes_p edges_p parks_p buildings_p
      in (proximity_p, accessibility_p))"

subsection \<open>Dask Bags\<close>

text \<open>
  A bag is a lazy collection: each element is a computation that has not run yet and
  may raise when it does. \<^verbatim>\<open>db.map(f, ...)\<close> maps \<open>f\<close> over the elements of its bag
  arguments position by position; an element whose argument raises, raises.
\<close>

type_synonym 'a bag = "(error + 'a) list"

definition from_sequence :: "'a list \<Rightarrow> 'a bag" where
  "from_sequence xs = map Inr xs"

definition db_map1 :: "('a \<Rightarrow> error + 'b) \<Rightarrow> 'a bag \<Rightarrow> 'b bag" where
  "db_map1 f as = map (\<lambda>a. case a of Inl e \<Rightarrow> Inl e | Inr x \<Rightarrow> f x) as"

definition db_map3 :: "('a \<Rightarrow> 'b \<Rightarrow> 'c \<Rightarrow> error + 'd) \<Rightarrow> 'a bag \<Rightarrow> 'b bag \<Rightarrow> 'c bag \<Rightarrow> 'd bag" where
  "db_map3 f as bs cs =
     map (\<lambda>(a, b, c).
            case a of Inl e \<Rightarrow> Inl e | Inr x \<Rightarrow>
            case b of Inl e \<Rightarrow> Inl e | Inr y \<Rightarrow>
            case c of Inl e \<Rightarrow> Inl e | Inr z \<Rightarrow> f x y z)
         (zip as (zip bs cs))"

definition db_map4 ::
  "('a \<Rightarrow> 'b \<Rightarrow> 'c \<Rightarrow> 'd \<Rightarrow> error + 'e) \<Rightarrow> 'a bag \<Rightarrow> 'b bag \<Rightarrow> 'c bag \<Rightarrow> 'd bag \<Rightarrow> 'e bag" where
  "db_map4 f as bs cs ds =
     map (\<lambda>(a, b, c, d).
            case a of Inl e \<Rightarrow> Inl e | Inr x \<Rightarrow>
            case b of Inl e \<Rightarrow> Inl e | Inr y \<Rightarrow>
            case c of Inl e \<Rightarrow> Inl e | Inr z \<Rightarrow>
            case d of Inl e \<Rightarrow> Inl e | Inr w \<Rightarrow> f x y z w)
         (zip as (zip bs (zip cs ds)))"

text \<open>
  \<^verbatim>\<open>dask.compute(bag)\<close> returns the list of the elements' values. The notebook has no
  exception handler, so an element that raises makes \<^verbatim>\<open>dask.compute\<close> raise, and no
  list is returned. What the tasks of other elements did before the exception surfaced
  depends on the scheduler and is not part of the result.
\<close>

fun dask_compute :: "'a bag \<Rightarrow> error + 'a list" where
  "dask_compute [] = Inr []"
| "dask_compute (Inl e # bag) = Inl e"
| "dask_compute (Inr x # bag) =
     (case dask_compute bag of Inl e \<Rightarrow> Inl e | Inr xs \<Rightarrow> Inr (x # xs))"

text \<open>The cells of section 5, for the list of cities found in the data folder.\<close>

definition run_batch ::
  "('g, 'net) collab \<Rightarrow> 'g filesystem \<Rightarrow> string list \<Rightarrow> string list \<Rightarrow> string list
     \<Rightarrow> error + (string list \<times> 'g figure) list" where
  "run_batch X fs data_folder fig_folder cities =
     (let cities_bag = from_sequence cities;
          nodes_bag = db_map1 (\<lambda>city. load_features fs data_folder city ''nodes'') cities_bag;
          edges_bag = db_map1 (\<lambda>city. load_features fs data_folder city ''edges'') cities_bag;
          parks_bag = db_map1 (\<lambda>city. load_features fs data_folder city ''parks'') cities_bag;
          buildings_bag =
            db_map1 (\<lambda>city. load_features fs data_folder city ''buildings'') cities_bag;
          accessibility_bag =
            db_map4 (accessibility_task X) nodes_bag edges_bag parks_bag buildings_bag;
          res = db_map3 (\<lambda>city parks buildings. plot X city parks buildings fig_folder)
                  cities_bag parks_bag accessibility_bag
      in dask_compute res)"

text \<open>
  What the tasks of one city compute when \<^verbatim>\<open>dask.compute\<close> evaluates the bag
  \<^verbatim>\<open>res\<close>: the element of \<^verbatim>\<open>res\<close> for that city. Its parks layer is the
  element of \<^verbatim>\<open>parks_bag\<close>, which the accessibility task and the plot task share.
\<close>

definition city_tasks ::
  "('g, 'net) collab \<Rightarrow> 'g filesystem \<Rightarrow> string list \<Rightarrow> string list \<Rightarrow> string
     \<Rightarrow> error + (string list \<times> 'g figure)" where
  "city_tasks X fs data_folder fig_folder city =
     (case load_features fs data_folder city ''parks'' of Inl e \<Rightarrow> Inl e | Inr parks \<Rightarrow>
      case load_features fs data_folder city ''nodes'' of Inl e \<Rightarrow> Inl e | Inr nodes \<Rightarrow>
      case load_features fs data_folder city ''edges'' of Inl e \<Rightarrow> Inl e | Inr edges \<Rightarrow>
      case load_features fs data_folder city ''buildings'' of Inl e \<Rightarrow> Inl e | Inr buildings \<Rightarrow>
      case accessibility_task X nodes edges parks buildings of Inl e \<Rightarrow> Inl e | Inr accessibility \<Rightarrow>
      plot X city parks accessibility fig_folder)"

subsection \<open>What the specification says of the routing engine\<close>

text \<open>The decimal numeral of a number: the columns of a proximity table are 1, 2, ...\<close>

fun str_nat :: "nat \<Rightarrow> string" where
  "str_nat n =
     (if n < 10 then [char_of (48 + n)]
      else str_nat (n div 10) @ [char_of (48 + n mod 10)])"

declare str_nat.simps [simp del]

text \<open>
  Modelled from the spec: the query \<^verbatim>\<open>nearest_pois\<close> is pandana, not code of the
  repository. Section 4.3: for every graph node, the distances to up to \<open>k\<close> nearest
  POIs within the threshold, with the not-found sentinel where fewer than \<open>k\<close> POIs
  exist within range. The specification leaves to the engine which nodes a network
  has (\<open>N\<close>), the network distances from a node to the POIs of a category (\<open>D\<close>) and
  the sentinel (\<open>s\<close>); they are parameters. \<open>spec_row\<close> is the row of a node: the
  \<open>k\<close> smallest distances within the threshold, in ascending order, then the
  sentinel up to \<open>k\<close> entries.
\<close>

definition spec_row ::
  "('net \<Rightarrow> string \<Rightarrow> cell \<Rightarrow> real list) \<Rightarrow> real \<Rightarrow> 'net \<Rightarrow> real \<Rightarrow> string \<Rightarrow> nat \<Rightarrow> cell
     \<Rightarrow> cell list" where
  "spec_row D s net distance category k v =
     (let found = take k (sort (filter (\<lambda>d. d \<le> distance) (D net category v)))
      in map NumC found @ replicate (k - length found) (NumC s))"

text \<open>
  Modelled from the spec: the table of the query has a row for every node of the
  network and the columns 1 to \<open>k\<close>.
\<close>

definition spec_nearest_pois ::
  "('net \<Rightarrow> cell list) \<Rightarrow> ('net \<Rightarrow> string \<Rightarrow> cell \<Rightarrow> real list) \<Rightarrow> real
     \<Rightarrow> 'net \<Rightarrow> real \<Rightarrow> string \<Rightarrow> nat \<Rightarrow> bool \<Rightarrow> error + dataframe" where
  "spec_nearest_pois N D s net distance category num_pois include_poi_ids =
     Inr \<lparr>index = N net,
          columns = map (\<lambda>j. (str_nat (Suc j),
                              map (\<lambda>v. spec_row D s net distance category num_pois v ! j) (N net)))
                      [0..<num_pois]\<rparr>"

subsection \<open>Registration bounds as a monitor\<close>


subsection \<open>A small engine for the examples\<close>

text \<open>
  The concrete runs below need an engine. In this one a geometry is a point (its own
  centroid), distances are measured along the axes, a node's nearest POIs are found
  as section 4.3 describes with 800 as the sentinel, and \<^verbatim>\<open>aggregate\<close> counts the
  entries of a variable within the distance. A graph without nodes has no nearest
  node: LookupError.
\<close>

record example_net =
  net_nodes :: "(cell \<times> cell \<times> cell) list"
  net_edges :: "(cell \<times> cell) list"
  net_pois :: "(string \<times> (cell \<times> cell) list) list"
  net_vars :: "(string \<times> cell list) list"

fun coord :: "cell \<Rightarrow> real option" where
  "coord (NumC r) = Some r"
| "coord (IntC i) = Some (of_int i)"
| "coord _ = None"

definition axis_distance :: "cell \<times> cell \<Rightarrow> cell \<times> cell \<Rightarrow> real option" where
  "axis_distance p q =
     (case (coord (fst p), coord (snd p), coord (fst q), coord (snd q)) of
        (Some a, Some b, Some c, Some d) \<Rightarrow> Some (\<bar>a - c\<bar> + \<bar>b - d\<bar>)
      | _ \<Rightarrow> None)"

fun closest :: "(cell \<times> real) list \<Rightarrow> (cell \<times> real) option" where
  "closest [] = None"
| "closest (c # cs) =
     (case closest cs of
        None \<Rightarrow> Some c
      | Some b \<Rightarrow> if snd c \<le> snd b then Some c else Some b)"

definition example_nearest_node :: "example_net \<Rightarrow> cell \<Rightarrow> cell \<Rightarrow> error + cell" where
  "example_nearest_node net x y =
     (case closest (List.map_filter
                      (\<lambda>(i, a, b). map_option (Pair i) (axis_distance (x, y) (a, b)))
                      (net_nodes net)) of
        None \<Rightarrow> Inl LookupError
      | Some (i, _) \<Rightarrow> Inr i)"

definition node_distance :: "example_net \<Rightarrow> cell \<Rightarrow> cell \<Rightarrow> real option" where
  "node_distance net v w =
     (case (map_of (net_nodes net) v, map_of (net_nodes net) w) of
        (Some p, Some q) \<Rightarrow> axis_distance p q
      | _ \<Rightarrow> None)"

definition example_poi_distances :: "example_net \<Rightarrow> string \<Rightarrow> cell \<Rightarrow> real list" where
  "example_poi_distances net category v =
     (case (map_of (net_nodes net) v, map_of (net_pois net) category) of
        (Some p, Some pois) \<Rightarrow> List.map_filter (axis_distance p) pois
      | _ \<Rightarrow> [])"

definition example_aggregate ::
  "example_net \<Rightarrow> real \<Rightarrow> string \<Rightarrow> string \<Rightarrow> error + series" where
  "example_aggregate net d kind name =
     (case map_of (net_vars net) name of
        None \<Rightarrow> Inl KeyError
      | Some ws \<Rightarrow>
          Inr (map (\<lambda>(v, _).
                      (v, IntC (int (length (filter
                             (\<lambda>w. case node_distance net v w of
                                     None \<Rightarrow> False | Some r \<Rightarrow> r \<le> d) ws)))))
                 (net_nodes net)))"

definition example :: "(cell \<times> cell, example_net) collab" where
  "example =
     \<lparr>centroid = (\<lambda>g. g),
      Network = (\<lambda>node_x node_y edge_from edge_to edge_weights.
        Inr \<lparr>net_nodes = map (\<lambda>((i, x), (_, y)). (i, x, y)) (zip node_x node_y),
             net_edges = zip (map snd edge_from) (map snd edge_to),
             net_pois = [], net_vars = []\<rparr>),
      set_pois = (\<lambda>net category maxdist maxitems x_col y_col.
        Inr (net\<lparr>net_pois := (category, zip (map snd x_col) (map snd y_col)) # net_pois net\<rparr>)),
      nearest_pois = spec_nearest_pois (\<lambda>net. map fst (net_nodes net)) example_poi_distances 800,
      nearest_node = example_nearest_node,
      set_var = (\<lambda>net node_ids name.
        Inr (net\<lparr>net_vars := (name, map snd node_ids) # net_vars net\<rparr>)),
      aggregate = example_aggregate,
      savefig = (\<lambda>fig_path fig. Inr ())\<rparr>"

text \<open>
  Delft in the examples: three nodes on a line, two edges, one park and two
  buildings.
\<close>

definition delft_nodes :: "(cell \<times> cell) geodataframe" where
  "delft_nodes =
     \<lparr>index = [IntC 0, IntC 1, IntC 2],
      columns = [(''osmid'', [IntC 10, IntC 11, IntC 12]),
                 (''x'', [NumC 0, NumC 500, NumC 2000]),
                 (''y'', [NumC 0, NumC 0, NumC 0])],
      geometry = [(NumC 0, NumC 0), (NumC 500, NumC 0), (NumC 2000, NumC 0)]\<rparr>"

definition delft_edges :: "(cell \<times> cell) geodataframe" where
  "delft_edges =
     \<lparr>index = [IntC 0, IntC 1],
      columns = [(''u'', [IntC 10, IntC 11]),
                 (''v'', [IntC 11, IntC 12]),
                 (''length'', [NumC 500, NumC 1500])],
      geometry = [(NumC 250, NumC 0), (NumC 1250, NumC 0)]\<rparr>"

definition delft_parks :: "(cell \<times> cell) geodataframe" where
  "delft_parks =
     \<lparr>index = [IntC 0], columns = [], geometry = [(NumC 100, NumC 0)]\<rparr>"

definition delft_buildings :: "(cell \<times> cell) geodataframe" where
  "delft_buildings =
     \<lparr>index = [IntC 0, IntC 1],
      columns = [(''height'', [NumC 9, NumC 12])],
      geometry = [(NumC 450, NumC 10), (NumC 1900, NumC 10)]\<rparr>"

definition delft :: "layer \<Rightarrow> (cell \<times> cell) geodataframe" where
  "delft = objects delft_nodes delft_edges delft_parks delft_buildings"

text \<open>
  The network that \<^verbatim>\<open>build_network\<close> returns for Delft, the network after
  \<^verbatim>\<open>accessibility_analysis\<close> has set the parks variable, and the buildings after the
  analysis.
\<close>

definition delft_net0 :: example_net where
  "delft_net0 =
     \<lparr>net_nodes = [(IntC 10, NumC 0, NumC 0), (IntC 11, NumC 500, NumC 0),
                   (IntC 12, NumC 2000, NumC 0)],
      net_edges = [(IntC 10, IntC 11), (IntC 11, IntC 12)],
      net_pois = [(''parks'', [(NumC 100, NumC 0)])],
      net_vars = []\<rparr>"

definition delft_net :: example_net where
  "delft_net = delft_net0\<lparr>net_vars := [(''parks'', [IntC 10])]\<rparr>"

definition delft_scored :: "(cell \<times> cell) geodataframe" where
  "delft_scored =
     \<lparr>index = [IntC 0, IntC 1],
      columns = [(''height'', [NumC 9, NumC 12]), (''accessibility'', [IntC 1, IntC 0])],
      geometry = [(NumC 450, NumC 10), (NumC 1900, NumC 10)]\<rparr>"

text \<open>
  Delft with a second building whose geometry has no centroid, and a city whose graph
  has no nodes (with the network \<^verbatim>\<open>build_network\<close> returns for it).
\<close>

definition delft_lost :: "layer \<Rightarrow> (cell \<times> cell) geodataframe" where
  "delft_lost =
     objects delft_nodes delft_edges delft_parks
       (delft_buildings\<lparr>geometry := [(NumC 450, NumC 10), (NaN, NaN)]\<rparr>)"

definition no_nodes :: "(cell \<times> cell) geodataframe" where
  "no_nodes = \<lparr>index = [], columns = [(''osmid'', []), (''x'', []), (''y'', [])], geometry = []\<rparr>"

definition no_edges :: "(cell \<times> cell) geodataframe" where
  "no_edges = \<lparr>index = [], columns = [(''u'', []), (''v'', []), (''length'', [])], geometry = []\<rparr>"

definition no_parks :: "(cell \<times> cell) geodataframe" where
  "no_parks = \<lparr>index = [], columns = [], geometry = []\<rparr>"

definition empty_graph :: "layer \<Rightarrow> (cell \<times> cell) geodataframe" where
  "empty_graph = objects no_nodes no_edges no_parks delft_buildings"

definition empty_net :: example_net where
  "empty_net = \<lparr>net_nodes = [], net_edges = [], net_pois = [(''parks'', [])], net_vars = []\<rparr>"

text \<open>
  The proximity table of Delft, and an edge layer for Delft whose second edge ends in
  a node 99 that the node layer does not have.
\<close>

definition delft_proximity :: dataframe where
  "delft_proximity =
     \<lparr>index = [IntC 10, IntC 11, IntC 12],
      columns = [(''1'', [NumC 100, NumC 400, NumC 800]),
                 (''2'', [NumC 800, NumC 800, NumC 800]),
                 (''3'', [NumC 800, NumC 800, NumC 800])]\<rparr>"

definition dangling_edges :: "(cell \<times> cell) geodataframe" where
  "dangling_edges =
     \<lparr>index = [IntC 0, IntC 1],
      columns = [(''u'', [IntC 10, IntC 11]),
                 (''v'', [IntC 11, IntC 99]),
                 (''length'', [NumC 500, NumC 1500])],
      geometry = [(NumC 250, NumC 0), (NumC 1250, NumC 0)]\<rparr>"

text \<open>The graph that the example engine builds of the node layer and these edges.\<close>

definition dangling_net :: example_net where
  "dangling_net = delft_net0\<lparr>net_edges := [(IntC 10, IntC 11), (IntC 11, IntC 99)]\<rparr>"

text \<open>The example engine with a graph constructor that refuses every graph.\<close>

definition refusing :: "(cell \<times> cell, example_net) collab" where
  "refusing = example\<lparr>Network := (\<lambda>node_x node_y edge_from edge_to edge_weights.
                                     Inl ReferentialIntegrityError)\<rparr>"

text \<open>
  A data folder with three cities, each with the layers of Delft, but the edge file of
  city A does not parse; and the figure that \<^verbatim>\<open>plot\<close> saves for a city with the layers
  of Delft.
\<close>

definition three_cities :: "(cell \<times> cell) filesystem" where
  "three_cities =
     map_of [([''data'', ''A'', ''nodes_A.shp''], Shapefile delft_nodes),
             ([''data'', ''A'', ''edges_A.shp''], Unparsable),
             ([''data'', ''A'', ''parks_A.shp''], Shapefile delft_parks),
             ([''data'', ''A'', ''buildings_A.shp''], Shapefile delft_buildings),
             ([''data'', ''B'', ''nodes_B.shp''], Shapefile delft_nodes),
             ([''data'', ''B'', ''edges_B.shp''], Shapefile delft_edges),
             ([''data'', ''B'', ''parks_B.shp''], Shapefile delft_parks),
             ([''data'', ''B'', ''buildings_B.shp''], Shapefile delft_buildings),
             ([''data'', ''C'', ''nodes_C.shp''], Shapefile delft_nodes),
             ([''data'', ''C'', ''edges_C.shp''], Shapefile delft_edges),
             ([''data'', ''C'', ''parks_C.shp''], Shapefile delft_parks),
             ([''data'', ''C'', ''buildings_C.shp''], Shapefile delft_buildings)]"

definition delft_figure :: "string \<Rightarrow> string list \<times> (cell \<times> cell) figure" where
  "delft_figure city =
     ([''fig'', city @ ''.png''],
      \<lparr>fig_parks = [(NumC 100, NumC 0)],
       fig_buildings = [((NumC 450, NumC 10), IntC 1), ((NumC 1900, NumC 10), IntC 0)]\<rparr>)"

section \<open>Properties\<close>

subsection \<open>Evaluating the examples\<close>

lemmas frame_ops = getitem_def getitems_def set_index_def setitem_def to_dict_def
  series_map_def centroid_x_def centroid_y_def get_node_ids_def

lemmas example_ops = example_def example_nearest_node_def example_aggregate_def
  example_poi_distances_def node_distance_def axis_distance_def List.map_filter_def

lemmas delft_layers = delft_def objects_def delft_nodes_def delft_edges_def delft_parks_def
  delft_buildings_def

lemma delft_build:
  "build_network example (delft Nodes) (delft Edges) (delft Parks) = Inr delft_net0"
  by (simp add: build_network_def frame_ops example_def delft_layers delft_net0_def)

lemma delft_park_nodes:
  "get_node_ids example delft_net0 (centroid_x example (delft Parks))
     (centroid_y example (delft Parks)) = Inr [(IntC 0, IntC 10)]"
  by (simp add: frame_ops example_ops delft_layers delft_net0_def)

lemma delft_set_var:
  "set_var example delft_net0 [(IntC 0, IntC 10)] ''parks'' = Inr delft_net"
  by (simp add: example_def delft_net_def delft_net0_def)

lemma delft_counts:
  "aggregate example delft_net 800 ''count'' ''parks''
     = Inr [(IntC 10, IntC 1), (IntC 11, IntC 1), (IntC 12, IntC 0)]"
  by (simp add: example_ops delft_net_def delft_net0_def)

lemma delft_building_nodes:
  "get_node_ids example delft_net (centroid_x example (delft Buildings))
     (centroid_y example (delft Buildings)) = Inr [(IntC 0, IntC 11), (IntC 1, IntC 12)]"
  by (simp add: frame_ops example_ops delft_layers delft_net_def delft_net0_def)

lemmas empty_layers = empty_graph_def objects_def no_nodes_def no_edges_def no_parks_def
  delft_buildings_def

subsection \<open>The accessibility score\<close>

text \<open>When \<^verbatim>\<open>accessibility_analysis\<close> returns, every step before has returned.\<close>

lemma accessibility_analysis_Inr:
  "(accessibility_analysis X h nodes edges parks buildings d = Inr res) =
   (\<exists>net0 park_nodes net counts node_ids.
      build_network X (h nodes) (h edges) (h parks) = Inr net0
    \<and> get_node_ids X net0 (centroid_x X (h parks)) (centroid_y X (h parks)) = Inr park_nodes
    \<and> set_var X net0 park_nodes ''parks'' = Inr net
    \<and> aggregate X net d ''count'' ''parks'' = Inr counts
    \<and> get_node_ids X net (centroid_x X (h buildings)) (centroid_y X (h buildings)) = Inr node_ids
    \<and> res = (h(buildings := setitem (h buildings) ''accessibility''
                               (series_map (to_dict counts) node_ids)), buildings))"
  unfolding accessibility_analysis_def
  by (simp split: sum.split) blast

lemma delft_accessibility:
  "accessibility_analysis example delft Nodes Edges Parks Buildings 800
     = Inr (delft(Buildings := delft_scored), Buildings)"
proof -
  have "setitem (delft Buildings) ''accessibility''
          (series_map (to_dict [(IntC 10, IntC 1), (IntC 11, IntC 1), (IntC 12, IntC 0)])
             [(IntC 0, IntC 11), (IntC 1, IntC 12)]) = delft_scored"
    by (simp add: frame_ops delft_layers delft_scored_def)
  then show ?thesis
    unfolding accessibility_analysis_Inr
    using delft_build delft_park_nodes delft_set_var delft_counts delft_building_nodes
    by (metis (no_types))
qed

lemma snap_points_length: "snap_points X net ps = Inr s \<Longrightarrow> length s = length ps"
  by (induction ps arbitrary: s) (auto split: sum.splits)

lemma snap_points_nth:
  "snap_points X net ps = Inr s \<Longrightarrow> i < length ps \<Longrightarrow>
     nearest_node X net (fst (snd (ps ! i))) (snd (snd (ps ! i))) = Inr (snd (s ! i))
     \<and> fst (s ! i) = fst (ps ! i)"
proof (induction ps arbitrary: s i)
  case Nil
  then show ?case by simp
next
  case (Cons p ps)
  obtain l x y where p: "p = (l, x, y)" by (cases p)
  from Cons.prems(1) p obtain node_id rest where
    hd: "nearest_node X net x y = Inr node_id" and
    tl: "snap_points X net ps = Inr rest" and
    s: "s = (l, node_id) # rest"
    by (auto split: sum.splits)
  show ?case
  proof (cases i)
    case 0
    with p hd s show ?thesis by simp
  next
    case (Suc j)
    with Cons.prems(2) have "j < length ps" by simp
    from Cons.IH [OF tl this] Suc s show ?thesis by simp
  qed
qed

lemma centroid_points_nth:
  assumes "i < length (index df)" and "i < length (geometry df)"
  shows "i < length (centroid_points X df)"
    and "centroid_points X df ! i
           = (index df ! i, fst (centroid X (geometry df ! i)), snd (centroid X (geometry df ! i)))"
  using assms by (simp_all add: centroid_points_def centroid_x_def centroid_y_def)

lemma get_node_ids_centroid:
  "get_node_ids X net (centroid_x X df) (centroid_y X df)
     = snap_points X net (centroid_points X df)"
  by (simp add: get_node_ids_def centroid_points_def)

lemma get_node_ids_centroid_nth:
  assumes "get_node_ids X net (centroid_x X df) (centroid_y X df) = Inr s"
    and "i < length (index df)" and "i < length (geometry df)"
  shows "nearest_node X net (fst (centroid X (geometry df ! i))) (snd (centroid X (geometry df ! i)))
           = Inr (snd (s ! i))
         \<and> fst (s ! i) = index df ! i \<and> i < length s"
proof -
  have run: "snap_points X net (centroid_points X df) = Inr s"
    using assms(1) by (simp add: get_node_ids_centroid)
  from snap_points_nth [OF run centroid_points_nth(1) [OF assms(2,3)]]
    snap_points_length [OF run] centroid_points_nth [OF assms(2,3), of X]
  show ?thesis by simp
qed

text \<open>
  Claim C1. Let \<open>net\<close> be the network the analysis queries and \<open>counts\<close> the table
  of the count aggregate on it. When the analysis returns, the object returned is the
  buildings layer, it has a column accessibility, and the entry of building \<open>i\<close> is
  what \<open>counts\<close> holds for the node that \<^verbatim>\<open>nearest_node\<close> answers for the centroid of
  building \<open>i\<close>: the value of that node and of no other (NaN if the table has no
  row for it).
\<close>

theorem accessibility_is_count_of_nearest_node:
  assumes "build_network X (h nodes) (h edges) (h parks) = Inr net0"
    and "get_node_ids X net0 (centroid_x X (h parks)) (centroid_y X (h parks)) = Inr park_nodes"
    and "set_var X net0 park_nodes ''parks'' = Inr net"
    and "aggregate X net d ''count'' ''parks'' = Inr counts"
    and "accessibility_analysis X h nodes edges parks buildings d = Inr (h', r)"
    and "i < length (index (h buildings))" and "i < length (geometry (h buildings))"
  shows "\<exists>node_id scores.
           nearest_node X net (fst (centroid X (geometry (h buildings) ! i)))
                              (snd (centroid X (geometry (h buildings) ! i))) = Inr node_id
         \<and> r = buildings
         \<and> map_of (columns (h' r)) ''accessibility'' = Some scores
         \<and> scores ! i = (case to_dict counts node_id of None \<Rightarrow> NaN | Some c \<Rightarrow> c)"
proof -
  from assms(5) [unfolded accessibility_analysis_Inr] assms(1-4)
  obtain node_ids where
    snap: "get_node_ids X net (centroid_x X (h buildings)) (centroid_y X (h buildings)) = Inr node_ids"
    and h': "h' = h(buildings := setitem (h buildings) ''accessibility''
                                  (series_map (to_dict counts) node_ids))"
    and r: "r = buildings"
    by (metis (no_types) sum.inject prod.inject)
  from get_node_ids_centroid_nth [OF snap assms(6,7)]
  have nn: "nearest_node X net (fst (centroid X (geometry (h buildings) ! i)))
              (snd (centroid X (geometry (h buildings) ! i))) = Inr (snd (node_ids ! i))"
    and i: "i < length node_ids" by simp_all
  have col: "map_of (columns (h' r)) ''accessibility''
               = Some (map snd (series_map (to_dict counts) node_ids))"
    by (simp add: h' r setitem_def update_conv')
  have "map snd (series_map (to_dict counts) node_ids) ! i
          = (case to_dict counts (snd (node_ids ! i)) of None \<Rightarrow> NaN | Some c \<Rightarrow> c)"
    using i by (simp add: series_map_def split_beta)
  with nn r col show ?thesis by blast
qed

theorem accessibility_is_count_of_nearest_node_witness:
  "accessibility_analysis example delft Nodes Edges Parks Buildings 800
     = Inr (delft(Buildings := delft_scored), Buildings)
   \<and> nearest_node example delft_net (NumC 1900) (NumC 10) = Inr (IntC 12)
   \<and> to_dict [(IntC 10, IntC 1), (IntC 11, IntC 1), (IntC 12, IntC 0)] (IntC 12) = Some (IntC 0)
   \<and> map_of (columns delft_scored) ''accessibility'' = Some [IntC 1, IntC 0]"
proof -
  have i: "1 < length (index (delft Buildings))" "1 < length (geometry (delft Buildings))"
    by (simp_all add: delft_layers)
  from accessibility_is_count_of_nearest_node
         [OF delft_build delft_park_nodes delft_set_var delft_counts delft_accessibility i]
  obtain node_id scores where
    "nearest_node example delft_net (fst (centroid example (geometry (delft Buildings) ! 1)))
        (snd (centroid example (geometry (delft Buildings) ! 1))) = Inr node_id"
    and "map_of (columns ((delft(Buildings := delft_scored)) Buildings)) ''accessibility''
           = Some scores"
    and "scores ! 1 = (case to_dict [(IntC 10, IntC 1), (IntC 11, IntC 1), (IntC 12, IntC 0)] node_id
                         of None \<Rightarrow> NaN | Some c \<Rightarrow> c)"
    by blast
  then show ?thesis
    using delft_accessibility
    by (simp add: delft_layers example_ops delft_net_def delft_net0_def delft_scored_def to_dict_def)
qed

subsection \<open>The Feature Loader\<close>

text \<open>
  Claim C9. For every base directory, city and layer name, \<^verbatim>\<open>load_features\<close> reads
  the file \<open>base/city/layer_city.shp\<close> and nothing else: it returns the geometry
  collection of that file, fails with NotFound when the file is absent and with
  FormatError when it does not parse, and a file system that holds only that file
  gives the same answer. It returns no file system: the read is its only effect.
\<close>

theorem load_features_reads_one_file:
  "load_features fs data_folder city features =
     (case fs (data_folder @ [city, features @ ''_'' @ city @ ''.shp'']) of
        None \<Rightarrow> Inl NotFound
      | Some Unparsable \<Rightarrow> Inl FormatError
      | Some (Shapefile df) \<Rightarrow> Inr df)
   \<and> load_features fs data_folder city features =
       load_features
         (\<lambda>p. if p = data_folder @ [city, features @ ''_'' @ city @ ''.shp''] then fs p else None)
         data_folder city features"
  by (simp add: load_features_def read_file_def)

subsection \<open>Lazy and eager execution\<close>

text \<open>
  What \<^verbatim>\<open>dask.compute\<close> does with the graph of section 4, task by task.
\<close>

lemma compute_delayed_graph:
  "compute X fs (delayed_graph data_folder city) =
     (case load_features fs data_folder city ''nodes'' of Inl e \<Rightarrow> Inl e | Inr nodes \<Rightarrow>
      case load_features fs data_folder city ''edges'' of Inl e \<Rightarrow> Inl e | Inr edges \<Rightarrow>
      case load_features fs data_folder city ''parks'' of Inl e \<Rightarrow> Inl e | Inr parks \<Rightarrow>
      case proximity_analysis X nodes edges parks of Inl e \<Rightarrow> Inl e | Inr proximity \<Rightarrow>
      case load_features fs data_folder city ''buildings'' of Inl e \<Rightarrow> Inl e | Inr buildings \<Rightarrow>
      case accessibility_task X nodes edges parks buildings of Inl e \<Rightarrow> Inl e | Inr accessibility \<Rightarrow>
      Inr (proximity, accessibility))"
  by (simp add: compute_def delayed_graph_def Let_def split: sum.splits)

text \<open>
  Claim C7. For every city, building the task graph (\<open>delayed_graph\<close>, which sees
  neither the files nor the libraries) and then evaluating it returns a pair of
  proximity table and accessibility layer exactly when the serial cells return that
  pair, and fails exactly when they fail.
\<close>

theorem lazy_equals_eager:
  "(compute X fs (delayed_graph data_folder city) = Inr r) =
     (run_serial X fs data_folder city = Inr r)
   \<and> (\<exists>e. compute X fs (delayed_graph data_folder city) = Inl e) =
     (\<exists>e. run_serial X fs data_folder city = Inl e)"
  unfolding compute_delayed_graph
  by (auto simp add: run_serial_def accessibility_task_def split: sum.splits prod.splits)

subsection \<open>Registration bounds\<close>



subsection \<open>What the accessibility analysis changes\<close>

lemma setitem_other:
  "index (setitem df key s) = index df"
  "geometry (setitem df key s) = geometry df"
  "k \<noteq> key \<Longrightarrow> map_of (columns (setitem df key s)) k = map_of (columns df) k"
  "map_of (columns (setitem df key s)) key = Some (map snd s)"
  "setitem (setitem df key s) key s = setitem df key s"
  by (simp_all add: setitem_def update_conv')

text \<open>
  Claim C4, as the code has it. \<^verbatim>\<open>accessibility_analysis\<close> is not pure: its last
  statement assigns the column accessibility of the buildings object it was given,
  and it returns that object. That is all it changes: every other object of the
  store is as before, and the buildings object keeps its index, its geometry and its
  other columns. (\<^verbatim>\<open>build_network\<close> and \<^verbatim>\<open>proximity_analysis\<close> take frames and
  return no store; \<^verbatim>\<open>set_index\<close> answers a new frame.)
\<close>

theorem accessibility_analysis_writes_one_column:
  assumes "accessibility_analysis X h nodes edges parks buildings d = Inr (h', r)"
  shows "r = buildings
       \<and> (\<forall>a. a \<noteq> buildings \<longrightarrow> h' a = h a)
       \<and> index (h' buildings) = index (h buildings)
       \<and> geometry (h' buildings) = geometry (h buildings)
       \<and> (\<forall>k. k \<noteq> ''accessibility'' \<longrightarrow>
             map_of (columns (h' buildings)) k = map_of (columns (h buildings)) k)
       \<and> (\<exists>scores. map_of (columns (h' buildings)) ''accessibility'' = Some scores)"
proof -
  from assms [unfolded accessibility_analysis_Inr]
  obtain s where h': "h' = h(buildings := setitem (h buildings) ''accessibility'' s)"
    and r: "r = buildings"
    by (metis (no_types) prod.inject)
  show ?thesis
    unfolding h' r by (simp add: setitem_other)
qed

theorem accessibility_analysis_writes_one_column_witness:
  "accessibility_analysis example delft Nodes Edges Parks Buildings 800
     = Inr (delft(Buildings := delft_scored), Buildings)
   \<and> (delft(Buildings := delft_scored)) Parks = delft Parks
   \<and> index delft_scored = index delft_buildings
   \<and> geometry delft_scored = geometry delft_buildings
   \<and> map_of (columns delft_scored) ''height'' = map_of (columns delft_buildings) ''height''
   \<and> map_of (columns delft_scored) ''accessibility'' = Some [IntC 1, IntC 0]"
  using accessibility_analysis_writes_one_column [OF delft_accessibility] delft_accessibility
  by (simp add: delft_scored_def delft_buildings_def)

text \<open>
  The claim as stated fails in Delft: after the analysis the buildings layer that was
  passed in has a column it did not have.
\<close>

theorem buildings_layer_is_modified:
  "accessibility_analysis example delft Nodes Edges Parks Buildings 800
     = Inr (delft(Buildings := delft_scored), Buildings)
   \<and> (delft(Buildings := delft_scored)) Buildings \<noteq> delft Buildings
   \<and> columns (delft Buildings) = [(''height'', [NumC 9, NumC 12])]
   \<and> columns ((delft(Buildings := delft_scored)) Buildings)
        = [(''height'', [NumC 9, NumC 12]), (''accessibility'', [IntC 1, IntC 0])]"
  using delft_accessibility by (simp add: delft_layers delft_scored_def)

subsection \<open>A nearest-node lookup that fails\<close>

lemma snap_points_fails:
  "i < length ps \<Longrightarrow>
   nearest_node X net (fst (snd (ps ! i))) (snd (snd (ps ! i))) = Inl err \<Longrightarrow>
   \<exists>j\<le>i. \<exists>err'. nearest_node X net (fst (snd (ps ! j))) (snd (snd (ps ! j))) = Inl err'
              \<and> (\<forall>k<j. \<exists>node_id. nearest_node X net (fst (snd (ps ! k))) (snd (snd (ps ! k)))
                                      = Inr node_id)
              \<and> snap_points X net ps = Inl err'"
proof (induction ps arbitrary: i)
  case Nil
  then show ?case by simp
next
  case (Cons p ps)
  obtain l x y where p: "p = (l, x, y)" by (cases p)
  show ?case
  proof (cases "nearest_node X net x y")
    case (Inl e)
    with p have "nearest_node X net (fst (snd ((p # ps) ! 0))) (snd (snd ((p # ps) ! 0))) = Inl e
                 \<and> snap_points X net (p # ps) = Inl e"
      by simp
    then show ?thesis by blast
  next
    case (Inr node_id)
    with Cons.prems(2) p obtain m where i: "i = Suc m" by (cases i) auto
    with Cons.prems have "m < length ps"
      and "nearest_node X net (fst (snd (ps ! m))) (snd (snd (ps ! m))) = Inl err"
      by simp_all
    from Cons.IH [OF this] obtain j err' where
      j: "j \<le> m" and
      fails: "nearest_node X net (fst (snd (ps ! j))) (snd (snd (ps ! j))) = Inl err'" and
      before: "\<forall>k<j. \<exists>node_id. nearest_node X net (fst (snd (ps ! k))) (snd (snd (ps ! k)))
                                  = Inr node_id" and
      run: "snap_points X net ps = Inl err'"
      by blast
    from j i have "Suc j \<le> i" by simp
    moreover from fails have
      "nearest_node X net (fst (snd ((p # ps) ! Suc j))) (snd (snd ((p # ps) ! Suc j))) = Inl err'"
      by simp
    moreover have "\<exists>node_id. nearest_node X net (fst (snd ((p # ps) ! k)))
                                (snd (snd ((p # ps) ! k))) = Inr node_id" if "k < Suc j" for k
    proof (cases k)
      case 0
      with Inr p show ?thesis by simp
    next
      case (Suc k')
      with that before show ?thesis by simp
    qed
    moreover from run Inr p have "snap_points X net (p # ps) = Inl err'" by simp
    ultimately show ?thesis by blast
  qed
qed

text \<open>
  Claim C6, as the code has it. The buildings are snapped by one call of
  \<^verbatim>\<open>get_node_ids\<close>. When the lookup of a building fails, the analysis as a whole
  fails, with the error of the first building whose lookup fails (building \<open>j\<close>, all
  lookups before it succeed): no building gets a score, and there is no error state
  per building.
\<close>

theorem failed_lookup_fails_the_analysis:
  assumes "build_network X (h nodes) (h edges) (h parks) = Inr net0"
    and "get_node_ids X net0 (centroid_x X (h parks)) (centroid_y X (h parks)) = Inr park_nodes"
    and "set_var X net0 park_nodes ''parks'' = Inr net"
    and "aggregate X net d ''count'' ''parks'' = Inr counts"
    and "i < length (index (h buildings))" and "i < length (geometry (h buildings))"
    and "nearest_node X net (fst (centroid X (geometry (h buildings) ! i)))
           (snd (centroid X (geometry (h buildings) ! i))) = Inl err"
  shows "\<exists>j\<le>i. \<exists>err'.
           nearest_node X net (fst (centroid X (geometry (h buildings) ! j)))
             (snd (centroid X (geometry (h buildings) ! j))) = Inl err'
         \<and> (\<forall>k<j. \<exists>node_id.
               nearest_node X net (fst (centroid X (geometry (h buildings) ! k)))
                 (snd (centroid X (geometry (h buildings) ! k))) = Inr node_id)
         \<and> accessibility_analysis X h nodes edges parks buildings d = Inl err'"
proof -
  let ?ps = "centroid_points X (h buildings)"
  have at: "?ps ! k = (index (h buildings) ! k, fst (centroid X (geometry (h buildings) ! k)),
                       snd (centroid X (geometry (h buildings) ! k)))" if "k \<le> i" for k
    using that assms(5,6) by (intro centroid_points_nth(2)) simp_all
  have len: "i < length ?ps" by (rule centroid_points_nth(1) [OF assms(5,6)])
  have "nearest_node X net (fst (snd (?ps ! i))) (snd (snd (?ps ! i))) = Inl err"
    using assms(7) by (simp add: at)
  from snap_points_fails [OF len this] obtain j err' where
    j: "j \<le> i" and
    fails: "nearest_node X net (fst (snd (?ps ! j))) (snd (snd (?ps ! j))) = Inl err'" and
    before: "\<forall>k<j. \<exists>node_id. nearest_node X net (fst (snd (?ps ! k))) (snd (snd (?ps ! k)))
                                = Inr node_id" and
    run: "snap_points X net ?ps = Inl err'"
    by blast
  from fails j have
    "nearest_node X net (fst (centroid X (geometry (h buildings) ! j)))
       (snd (centroid X (geometry (h buildings) ! j))) = Inl err'"
    by (simp add: at)
  moreover have "\<exists>node_id.
      nearest_node X net (fst (centroid X (geometry (h buildings) ! k)))
        (snd (centroid X (geometry (h buildings) ! k))) = Inr node_id" if "k < j" for k
  proof -
    from that j have "k \<le> i" by simp
    from before that have
      "\<exists>node_id. nearest_node X net (fst (snd (?ps ! k))) (snd (snd (?ps ! k))) = Inr node_id"
      by blast
    with at [OF \<open>k \<le> i\<close>] show ?thesis by simp
  qed
  moreover have "accessibility_analysis X h nodes edges parks buildings d = Inl err'"
  proof -
    have "get_node_ids X net (centroid_x X (h buildings)) (centroid_y X (h buildings)) = Inl err'"
      by (simp only: get_node_ids_centroid run)
    then show ?thesis
      by (simp only: accessibility_analysis_def assms(1-4) sum.case)
  qed
  ultimately show ?thesis using j by blast
qed

theorem failed_lookup_fails_the_analysis_witness:
  "accessibility_analysis example empty_graph Nodes Edges Parks Buildings 800 = Inl LookupError"
proof -
  have build: "build_network example (empty_graph Nodes) (empty_graph Edges) (empty_graph Parks)
                 = Inr empty_net"
    by (simp add: build_network_def frame_ops example_def empty_layers empty_net_def)
  have parks: "get_node_ids example empty_net (centroid_x example (empty_graph Parks))
                 (centroid_y example (empty_graph Parks)) = Inr []"
    by (simp add: frame_ops empty_layers)
  have setv: "set_var example empty_net [] ''parks''
                = Inr (empty_net\<lparr>net_vars := [(''parks'', [])]\<rparr>)"
    by (simp add: example_def empty_net_def)
  have agg: "aggregate example (empty_net\<lparr>net_vars := [(''parks'', [])]\<rparr>) 800 ''count'' ''parks''
               = Inr []"
    by (simp add: example_ops empty_net_def)
  have i: "0 < length (index (empty_graph Buildings))" "0 < length (geometry (empty_graph Buildings))"
    by (simp_all add: empty_layers)
  have lookup: "nearest_node example (empty_net\<lparr>net_vars := [(''parks'', [])]\<rparr>)
                  (fst (centroid example (geometry (empty_graph Buildings) ! 0)))
                  (snd (centroid example (geometry (empty_graph Buildings) ! 0))) = Inl LookupError"
    by (simp add: example_ops empty_net_def empty_layers)
  from failed_lookup_fails_the_analysis
         [where h = empty_graph and nodes = Nodes and edges = Edges and parks = Parks
            and buildings = Buildings, OF build parks setv agg i lookup] lookup
  show ?thesis by auto
qed

text \<open>
  The claim as stated fails in Delft with a second building that has no centroid: the
  first building has a nearest node, the lookup of the second fails, and the analysis
  returns no score for either.
\<close>

theorem lookup_failure_aborts_all_buildings:
  "accessibility_analysis example delft_lost Nodes Edges Parks Buildings 800 = Inl LookupError
   \<and> geometry (delft_lost Buildings) = [(NumC 450, NumC 10), (NaN, NaN)]
   \<and> nearest_node example delft_net (NumC 450) (NumC 10) = Inr (IntC 11)
   \<and> nearest_node example delft_net NaN NaN = Inl LookupError"
  by (simp add: accessibility_analysis_def build_network_def frame_ops example_ops
        delft_lost_def delft_layers delft_net_def delft_net0_def)

subsection \<open>Running the analysis again\<close>

lemma build_network_reads:
  assumes "map_of (columns nodes) ''osmid'' = map_of (columns nodes') ''osmid''"
    and "map_of (columns nodes) ''x'' = map_of (columns nodes') ''x''"
    and "map_of (columns nodes) ''y'' = map_of (columns nodes') ''y''"
    and "map_of (columns edges) ''u'' = map_of (columns edges') ''u''"
    and "map_of (columns edges) ''v'' = map_of (columns edges') ''v''"
    and "map_of (columns edges) ''length'' = map_of (columns edges') ''length''"
    and "index parks = index parks'" and "geometry parks = geometry parks'"
  shows "build_network X nodes edges parks = build_network X nodes' edges' parks'"
proof -
  have c: "centroid_x X parks = centroid_x X parks'" "centroid_y X parks = centroid_y X parks'"
    by (simp_all add: centroid_x_def centroid_y_def assms(7,8))
  show ?thesis
    unfolding build_network_def c
    by (simp add: set_index_def getitem_def getitems_def assms(1-6) split: option.split)
qed

lemma store_after_setitem:
  assumes "h' = h(b := setitem (h b) ''accessibility'' s)"
  shows "index (h' a) = index (h a)" and "geometry (h' a) = geometry (h a)"
    and "k \<noteq> ''accessibility'' \<Longrightarrow> map_of (columns (h' a)) k = map_of (columns (h a)) k"
  by (simp_all add: assms setitem_other)

text \<open>
  Claim C8. The libraries are functions of their arguments, so a run on the same
  layers is the same run. The layers are not quite the same after a run, since the
  buildings object has its accessibility column; still a second run on the objects
  the first run left behind returns the same accessibility table and leaves the store
  as it is, and \<^verbatim>\<open>proximity_analysis\<close> returns what it returned before.
\<close>

theorem rerun_gives_the_same_tables:
  assumes "accessibility_analysis X h nodes edges parks buildings d = Inr (h', r)"
  shows "accessibility_analysis X h' nodes edges parks buildings d = Inr (h', r)
       \<and> proximity_analysis X (h' nodes) (h' edges) (h' parks)
           = proximity_analysis X (h nodes) (h edges) (h parks)"
proof -
  from assms [unfolded accessibility_analysis_Inr]
  obtain net0 park_nodes net counts node_ids where
    build: "build_network X (h nodes) (h edges) (h parks) = Inr net0" and
    park_snap: "get_node_ids X net0 (centroid_x X (h parks)) (centroid_y X (h parks)) = Inr park_nodes" and
    setv: "set_var X net0 park_nodes ''parks'' = Inr net" and
    agg: "aggregate X net d ''count'' ''parks'' = Inr counts" and
    snap: "get_node_ids X net (centroid_x X (h buildings)) (centroid_y X (h buildings)) = Inr node_ids" and
    res: "(h', r) = (h(buildings := setitem (h buildings) ''accessibility''
                                     (series_map (to_dict counts) node_ids)), buildings)"
    by blast
  from res have h': "h' = h(buildings := setitem (h buildings) ''accessibility''
                                     (series_map (to_dict counts) node_ids))"
    and r: "r = buildings" by (metis prod.inject)+
  note same = store_after_setitem [OF h']
  have build': "build_network X (h' nodes) (h' edges) (h' parks)
                  = build_network X (h nodes) (h edges) (h parks)"
    by (rule build_network_reads) (simp_all add: same)
  have cx: "centroid_x X (h' a) = centroid_x X (h a)" and cy: "centroid_y X (h' a) = centroid_y X (h a)" for a
    by (simp_all add: centroid_x_def centroid_y_def same)
  have again: "h'(buildings := setitem (h' buildings) ''accessibility''
                                (series_map (to_dict counts) node_ids)) = h'"
    by (simp add: h' setitem_other)
  have "accessibility_analysis X h' nodes edges parks buildings d = Inr (h', r)"
    unfolding accessibility_analysis_Inr build' cx cy
    using build park_snap setv agg snap again r by (metis (no_types))
  moreover have "proximity_analysis X (h' nodes) (h' edges) (h' parks)
           = proximity_analysis X (h nodes) (h edges) (h parks)"
    by (simp only: proximity_analysis_def build')
  ultimately show ?thesis by blast
qed

theorem rerun_gives_the_same_tables_witness:
  "accessibility_analysis example delft Nodes Edges Parks Buildings 800
     = Inr (delft(Buildings := delft_scored), Buildings)
   \<and> accessibility_analysis example (delft(Buildings := delft_scored)) Nodes Edges Parks Buildings 800
     = Inr (delft(Buildings := delft_scored), Buildings)"
  using rerun_gives_the_same_tables [OF delft_accessibility] delft_accessibility
  by simp

subsection \<open>The shape of the proximity table\<close>

lemma str_nat_digits: "str_nat 1 = ''1''" "str_nat 2 = ''2''" "str_nat 3 = ''3''"
  by code_simp+

lemma delft_proximity:
  "proximity_analysis example delft_nodes delft_edges delft_parks = Inr delft_proximity"
proof -
  have three: "[0..<3] = [0, 1, 2]"
    by (simp add: upt_rec numeral_3_eq_3)
  have "nearest_pois example delft_net0 800 ''parks'' 3 False = Inr delft_proximity"
    by (simp add: example_ops spec_nearest_pois_def spec_row_def three delft_net0_def
          delft_proximity_def str_nat_digits [simplified] numeral_2_eq_2 [symmetric]
          numeral_3_eq_3 [symmetric])
  with delft_build show ?thesis
    by (simp add: proximity_analysis_def delft_def objects_def)
qed

lemma spec_row_cells:
  assumes "c \<in> set (spec_row D s net distance category k v)"
  shows "c = NumC s \<or> (\<exists>r. c = NumC r \<and> r \<le> distance)"
proof -
  let ?found = "take k (sort (filter (\<lambda>d. d \<le> distance) (D net category v)))"
  have row: "spec_row D s net distance category k v
               = map NumC ?found @ replicate (k - length ?found) (NumC s)"
    by (simp only: spec_row_def Let_def)
  from assms [unfolded row]
  have "c \<in> set (map NumC ?found) \<or> c \<in> set (replicate (k - length ?found) (NumC s))"
    by (simp only: set_append Un_iff)
  then show ?thesis
  proof
    assume "c \<in> set (map NumC ?found)"
    then obtain r where c: "c = NumC r" and "r \<in> set ?found"
      by (auto simp only: set_map image_iff)
    then have "r \<in> set (sort (filter (\<lambda>d. d \<le> distance) (D net category v)))"
      by (simp only: in_set_takeD)
    then have "r \<le> distance" by simp
    with c show ?thesis by blast
  next
    assume "c \<in> set (replicate (k - length ?found) (NumC s))"
    then have "c = NumC s" by (simp only: in_set_replicate)
    then show ?thesis ..
  qed
qed

lemma spec_row_length: "length (spec_row D s net distance category k v) = k"
  by (simp add: spec_row_def Let_def)

lemma spec_row_not_found:
  assumes "list_all (\<lambda>r. distance < r) (D net category v)"
  shows "spec_row D s net distance category k v = replicate k (NumC s)"
proof -
  from assms have "filter (\<lambda>d. d \<le> distance) (D net category v) = []"
    by (auto simp add: list_all_iff filter_empty_conv)
  then show ?thesis by (simp add: spec_row_def)
qed

lemma build_network_other_query:
  "build_network (X\<lparr>nearest_pois := q\<rparr>) nodes edges parks = build_network X nodes edges parks"
  by (simp add: build_network_def centroid_x_def centroid_y_def cong: sum.case_cong)

text \<open>
  Claim C2, for the query of section 4.3 of the specification. When
  \<^verbatim>\<open>proximity_analysis\<close> returns, its table has one row per node of the network
  and exactly the three distance columns 1, 2 and 3; every entry is the sentinel or a
  distance of at most 800; and in the row of a node that has no POI within 800 every
  entry is the sentinel.
\<close>

theorem proximity_table_shape:
  assumes "proximity_analysis (X\<lparr>nearest_pois := spec_nearest_pois N D s\<rparr>) nodes edges parks
             = Inr proximity"
  shows "\<exists>net. build_network X nodes edges parks = Inr net
           \<and> index proximity = N net
           \<and> map fst (columns proximity) = [''1'', ''2'', ''3'']
           \<and> list_all (\<lambda>(name, col).
                 length col = length (N net)
               \<and> list_all (\<lambda>c. c = NumC s \<or> (\<exists>r. c = NumC r \<and> r \<le> 800)) col
               \<and> (\<forall>i < length (N net).
                     list_all (\<lambda>r. 800 < r) (D net ''parks'' (N net ! i)) \<longrightarrow> col ! i = NumC s))
               (columns proximity)"
proof -
  have "proximity_analysis (X\<lparr>nearest_pois := spec_nearest_pois N D s\<rparr>) nodes edges parks =
          (case build_network X nodes edges parks of
             Inl e \<Rightarrow> Inl e
           | Inr net \<Rightarrow> spec_nearest_pois N D s net 800 ''parks'' 3 False)"
    by (simp add: proximity_analysis_def build_network_other_query cong: sum.case_cong)
  with assms obtain net where
    build: "build_network X nodes edges parks = Inr net" and
    table: "spec_nearest_pois N D s net 800 ''parks'' 3 False = Inr proximity"
    by (cases "build_network X nodes edges parks") simp_all
  let ?row = "spec_row D s net 800 ''parks'' 3"
  let ?col = "\<lambda>j. map (\<lambda>v. ?row v ! j) (N net)"
  from table have proximity:
    "proximity = \<lparr>index = N net, columns = map (\<lambda>j. (str_nat (Suc j), ?col j)) [0..<3]\<rparr>"
    by (simp add: spec_nearest_pois_def)
  have three: "[0..<3] = [0, 1, 2]"
    by (simp add: upt_rec numeral_3_eq_3)
  have "map fst (columns proximity) = [str_nat 1, str_nat 2, str_nat 3]"
    by (simp add: proximity three numeral_3_eq_3 numeral_2_eq_2)
  then have names: "map fst (columns proximity) = [''1'', ''2'', ''3'']"
    by (simp only: str_nat_digits)
  have cell: "?row v ! j = NumC s \<or> (\<exists>r. ?row v ! j = NumC r \<and> r \<le> 800)" if "j < 3" for v j
  proof (rule spec_row_cells)
    from that show "?row v ! j \<in> set (?row v)" by (simp add: spec_row_length)
  qed
  have lost: "?row (N net ! i) ! j = NumC s"
    if "j < 3" and "list_all (\<lambda>r. 800 < r) (D net ''parks'' (N net ! i))" for i j
    using that by (simp add: spec_row_not_found)
  have col: "length (?col j) = length (N net)
           \<and> list_all (\<lambda>c. c = NumC s \<or> (\<exists>r. c = NumC r \<and> r \<le> 800)) (?col j)
           \<and> (\<forall>i < length (N net).
                 list_all (\<lambda>r. 800 < r) (D net ''parks'' (N net ! i)) \<longrightarrow> ?col j ! i = NumC s)"
    if "j < 3" for j
    using cell [OF that] lost [OF that] by (simp add: list_all_iff)
  have "list_all (\<lambda>(name, col).
                 length col = length (N net)
               \<and> list_all (\<lambda>c. c = NumC s \<or> (\<exists>r. c = NumC r \<and> r \<le> 800)) col
               \<and> (\<forall>i < length (N net).
                     list_all (\<lambda>r. 800 < r) (D net ''parks'' (N net ! i)) \<longrightarrow> col ! i = NumC s))
               (columns proximity)"
    unfolding proximity three using col [of 0] col [of 1] col [of 2]
    by simp
  with build names proximity show ?thesis by simp
qed

theorem proximity_table_shape_witness:
  "proximity_analysis example delft_nodes delft_edges delft_parks = Inr delft_proximity
   \<and> build_network example delft_nodes delft_edges delft_parks = Inr delft_net0
   \<and> map fst (columns delft_proximity) = [''1'', ''2'', ''3'']
   \<and> example_poi_distances delft_net0 ''parks'' (IntC 12) = [1900]
   \<and> map (\<lambda>(name, col). col ! 2) (columns delft_proximity) = [NumC 800, NumC 800, NumC 800]"
proof -
  have same: "example\<lparr>nearest_pois :=
                 spec_nearest_pois (\<lambda>net. map fst (net_nodes net)) example_poi_distances 800\<rparr>
               = example"
    by (simp add: example_def)
  from proximity_table_shape
         [where X = example and N = "\<lambda>net. map fst (net_nodes net)"
            and D = example_poi_distances and s = 800, unfolded same, OF delft_proximity]
  obtain net where "build_network example delft_nodes delft_edges delft_parks = Inr net"
    and "map fst (columns delft_proximity) = [''1'', ''2'', ''3'']"
    by (elim exE conjE) (rule that)
  then show ?thesis
    using delft_proximity delft_build
    by (simp add: str_nat_digits delft_def objects_def delft_proximity_def example_ops
          delft_net0_def)
qed

subsection \<open>Edges that reference a node the node layer does not have\<close>

lemma well_formed_column:
  "well_formed df \<Longrightarrow> map_of (columns df) key = Some col \<Longrightarrow> length col = length (index df)"
  by (auto simp add: well_formed_def list_all_iff dest!: map_of_SomeD)

lemma snd_zip_longer: "length ys \<le> length xs \<Longrightarrow> map snd (zip xs ys) = ys"
  by (induction xs ys rule: list_induct2') auto

lemma build_network_columns:
  assumes "map_of (columns nodes) ''osmid'' = Some ids"
    and "map_of (columns nodes) ''x'' = Some xs"
    and "map_of (columns nodes) ''y'' = Some ys"
    and "map_of (columns edges) ''u'' = Some us"
    and "map_of (columns edges) ''v'' = Some vs"
    and "map_of (columns edges) ''length'' = Some ws"
  shows "build_network X nodes edges parks =
     (case Network X (zip ids xs) (zip ids ys)
             (zip (map TupC (transpose [us, vs])) us)
             (zip (map TupC (transpose [us, vs])) vs)
             \<lparr>index = map TupC (transpose [us, vs]), columns = [(''length'', ws)]\<rparr> of
        Inl e \<Rightarrow> Inl e
      | Inr network \<Rightarrow>
          set_pois X network ''parks'' 1000 25 (centroid_x X parks) (centroid_y X parks))"
  by (simp add: build_network_def set_index_def getitem_def getitems_def assms)

lemma build_failure_first:
  assumes "build_network X nodes edges parks = Inl e"
  shows "proximity_analysis X nodes edges parks = Inl e"
    and "accessibility_analysis X (objects nodes edges parks buildings)
           Nodes Edges Parks Buildings d = Inl e"
  using assms by (simp_all add: proximity_analysis_def accessibility_analysis_def objects_def)

lemma dangling_build:
  "build_network example delft_nodes dangling_edges delft_parks = Inr dangling_net"
  by (simp add: build_network_def frame_ops example_def delft_nodes_def dangling_edges_def
        delft_parks_def dangling_net_def delft_net0_def)

text \<open>
  Claim C5, as the code has it. \<^verbatim>\<open>build_network\<close> checks no edge: with a well-formed
  node layer that has its columns osmid, x and y and an edge layer that has its columns
  u, v and length, it hands the node identifiers and the edge endpoints to the graph
  constructor of the engine as they are, whether or not every endpoint is a node
  identifier, and it fails only when the constructor or the registration of the parks
  fails, with that error. When \<^verbatim>\<open>build_network\<close> fails, \<^verbatim>\<open>proximity_analysis\<close> and
  \<^verbatim>\<open>accessibility_analysis\<close> fail with the same error, whatever the queries of the
  engine would answer: the failure comes before any query.
\<close>

theorem build_network_checks_no_edge:
  assumes "well_formed nodes"
    and "map_of (columns nodes) ''osmid'' = Some ids"
    and "map_of (columns nodes) ''x'' = Some xs"
    and "map_of (columns nodes) ''y'' = Some ys"
    and "map_of (columns edges) ''u'' = Some us"
    and "map_of (columns edges) ''v'' = Some vs"
    and "map_of (columns edges) ''length'' = Some ws"
  shows "build_network X nodes edges parks =
           (case Network X (zip ids xs) (zip ids ys)
                   (zip (map TupC (transpose [us, vs])) us)
                   (zip (map TupC (transpose [us, vs])) vs)
                   \<lparr>index = map TupC (transpose [us, vs]), columns = [(''length'', ws)]\<rparr> of
              Inl e \<Rightarrow> Inl e
            | Inr network \<Rightarrow>
                set_pois X network ''parks'' 1000 25 (centroid_x X parks) (centroid_y X parks))
       \<and> map fst (zip ids xs) = ids
       \<and> map snd (zip (map TupC (transpose [us, vs])) us) = us
       \<and> map snd (zip (map TupC (transpose [us, vs])) vs) = vs
       \<and> (build_network X nodes edges parks = Inl e \<longrightarrow>
            proximity_analysis X nodes edges parks = Inl e
          \<and> accessibility_analysis X (objects nodes edges parks buildings)
              Nodes Edges Parks Buildings d = Inl e)"
proof -
  let ?idx = "map TupC (transpose [us, vs])"
  have "length xs = length ids"
    using well_formed_column [OF assms(1)] assms(2,3) by simp
  then have node_ids: "map fst (zip ids xs) = ids" by simp
  have "length ?idx = max (length us) (length vs)"
    by (simp add: length_transpose)
  then have ends: "map snd (zip ?idx us) = us" "map snd (zip ?idx vs) = vs"
    by (simp_all add: snd_zip_longer)
  from build_network_columns [OF assms(2-7)] node_ids ends build_failure_first
  show ?thesis by blast
qed

text \<open>
  The edge layer with an endpoint 99 that is no node, once with the example engine, which
  builds the graph, and once with an engine whose constructor refuses every graph.
\<close>

theorem build_network_checks_no_edge_witness:
  "build_network example delft_nodes dangling_edges delft_parks = Inr dangling_net
   \<and> build_network refusing delft_nodes dangling_edges delft_parks = Inl ReferentialIntegrityError
   \<and> proximity_analysis refusing delft_nodes dangling_edges delft_parks = Inl ReferentialIntegrityError
   \<and> accessibility_analysis refusing
         (objects delft_nodes dangling_edges delft_parks delft_buildings)
         Nodes Edges Parks Buildings 800 = Inl ReferentialIntegrityError"
proof -
  have wf: "well_formed delft_nodes"
    by (simp add: well_formed_def delft_nodes_def)
  have cols:
    "map_of (columns delft_nodes) ''osmid'' = Some [IntC 10, IntC 11, IntC 12]"
    "map_of (columns delft_nodes) ''x'' = Some [NumC 0, NumC 500, NumC 2000]"
    "map_of (columns delft_nodes) ''y'' = Some [NumC 0, NumC 0, NumC 0]"
    "map_of (columns dangling_edges) ''u'' = Some [IntC 10, IntC 11]"
    "map_of (columns dangling_edges) ''v'' = Some [IntC 11, IntC 99]"
    "map_of (columns dangling_edges) ''length'' = Some [NumC 500, NumC 1500]"
    by (simp_all add: delft_nodes_def dangling_edges_def)
  note passes = build_network_checks_no_edge [OF wf cols]
  have refused: "build_network refusing delft_nodes dangling_edges delft_parks
                   = Inl ReferentialIntegrityError"
    using passes [of refusing delft_parks] by (simp add: refusing_def)
  with passes [of refusing delft_parks ReferentialIntegrityError delft_buildings 800]
  have "proximity_analysis refusing delft_nodes dangling_edges delft_parks
          = Inl ReferentialIntegrityError"
    and "accessibility_analysis refusing
           (objects delft_nodes dangling_edges delft_parks delft_buildings)
           Nodes Edges Parks Buildings 800 = Inl ReferentialIntegrityError"
    by blast+
  with refused dangling_build show ?thesis by blast
qed

text \<open>
  The claim as the specification words it does not hold of \<^verbatim>\<open>build_network\<close>: the
  endpoint 99 of the second edge is no osmid of the node layer, and with the example
  engine, whose constructor does not check the endpoints, the graph is built and both
  analyses return their results.
\<close>

theorem dangling_edge_is_accepted:
  "map_of (columns delft_nodes) ''osmid'' = Some [IntC 10, IntC 11, IntC 12]
   \<and> map_of (columns dangling_edges) ''v'' = Some [IntC 11, IntC 99]
   \<and> IntC 99 \<notin> set [IntC 10, IntC 11, IntC 12]
   \<and> build_network example delft_nodes dangling_edges delft_parks = Inr dangling_net
   \<and> proximity_analysis example delft_nodes dangling_edges delft_parks = Inr delft_proximity
   \<and> accessibility_task example delft_nodes dangling_edges delft_parks delft_buildings
        = Inr delft_scored"
proof -
  have three: "[0..<3] = [0, 1, 2]"
    by (simp add: upt_rec numeral_3_eq_3)
  have "nearest_pois example dangling_net 800 ''parks'' 3 False = Inr delft_proximity"
    by (simp add: example_ops spec_nearest_pois_def spec_row_def three dangling_net_def
          delft_net0_def delft_proximity_def str_nat_digits [simplified]
          numeral_2_eq_2 [symmetric] numeral_3_eq_3 [symmetric])
  with dangling_build
  have proximity: "proximity_analysis example delft_nodes dangling_edges delft_parks
                     = Inr delft_proximity"
    by (simp add: proximity_analysis_def)
  let ?h = "objects delft_nodes dangling_edges delft_parks delft_buildings"
  let ?scored = "dangling_net\<lparr>net_vars := [(''parks'', [IntC 10])]\<rparr>"
  have build: "build_network example (?h Nodes) (?h Edges) (?h Parks) = Inr dangling_net"
    using dangling_build by (simp add: objects_def)
  have park_nodes: "get_node_ids example dangling_net (centroid_x example (?h Parks))
                      (centroid_y example (?h Parks)) = Inr [(IntC 0, IntC 10)]"
    by (simp add: frame_ops example_ops objects_def delft_parks_def dangling_net_def
          delft_net0_def)
  have var: "set_var example dangling_net [(IntC 0, IntC 10)] ''parks'' = Inr ?scored"
    by (simp add: example_def dangling_net_def delft_net0_def)
  have counts: "aggregate example ?scored 800 ''count'' ''parks''
                  = Inr [(IntC 10, IntC 1), (IntC 11, IntC 1), (IntC 12, IntC 0)]"
    by (simp add: example_ops dangling_net_def delft_net0_def)
  have building_nodes: "get_node_ids example ?scored (centroid_x example (?h Buildings))
                          (centroid_y example (?h Buildings))
                        = Inr [(IntC 0, IntC 11), (IntC 1, IntC 12)]"
    by (simp add: frame_ops example_ops objects_def delft_buildings_def dangling_net_def
          delft_net0_def)
  have "setitem (?h Buildings) ''accessibility''
          (series_map (to_dict [(IntC 10, IntC 1), (IntC 11, IntC 1), (IntC 12, IntC 0)])
             [(IntC 0, IntC 11), (IntC 1, IntC 12)]) = delft_scored"
    by (simp add: frame_ops objects_def delft_buildings_def delft_scored_def)
  then have "accessibility_analysis example ?h Nodes Edges Parks Buildings 800
               = Inr (?h(Buildings := delft_scored), Buildings)"
    unfolding accessibility_analysis_Inr
    using build park_nodes var counts building_nodes
    by (metis (no_types))
  then have "accessibility_task example delft_nodes dangling_edges delft_parks delft_buildings
               = Inr delft_scored"
    by (simp add: accessibility_task_def objects_def)
  with proximity dangling_build show ?thesis
    by (simp add: delft_nodes_def dangling_edges_def)
qed

subsection \<open>A batch of cities\<close>

lemma run_batch_map:
  "run_batch X fs data_folder fig_folder cities
     = dask_compute (map (city_tasks X fs data_folder fig_folder) cities)"
proof -
  let ?element = "\<lambda>city.
     case load_features fs data_folder city ''parks'' of Inl e \<Rightarrow> Inl e | Inr parks \<Rightarrow>
     case (case load_features fs data_folder city ''nodes'' of Inl e \<Rightarrow> Inl e | Inr nodes \<Rightarrow>
           case load_features fs data_folder city ''edges'' of Inl e \<Rightarrow> Inl e | Inr edges \<Rightarrow>
           case load_features fs data_folder city ''parks'' of Inl e \<Rightarrow> Inl e | Inr parks \<Rightarrow>
           case load_features fs data_folder city ''buildings'' of
             Inl e \<Rightarrow> Inl e
           | Inr buildings \<Rightarrow> accessibility_task X nodes edges parks buildings) of
       Inl e \<Rightarrow> Inl e
     | Inr accessibility \<Rightarrow> plot X city parks accessibility fig_folder"
  have "run_batch X fs data_folder fig_folder cities = dask_compute (map ?element cities)"
    by (simp add: run_batch_def Let_def from_sequence_def db_map1_def db_map3_def db_map4_def
          zip_map_map zip_same_conv_map comp_def)
  moreover have "?element = city_tasks X fs data_folder fig_folder"
    by (rule ext) (simp add: city_tasks_def split: sum.split)
  ultimately show ?thesis by simp
qed

lemma dask_compute_map_Inr:
  "(dask_compute (map g cs) = Inr rs) =
     (length rs = length cs \<and> (\<forall>i<length cs. g (cs ! i) = Inr (rs ! i)))"
proof (induction cs arbitrary: rs)
  case Nil
  then show ?case by auto
next
  case (Cons c cs)
  show ?case
  proof (cases "g c")
    case (Inl e)
    then show ?thesis by auto
  next
    case (Inr x)
    show ?thesis
    proof (cases rs)
      case Nil
      with Inr show ?thesis by (simp split: sum.splits)
    next
      case (Cons r rs')
      with Inr Cons.IH [of rs'] show ?thesis
        by (auto simp add: nth_Cons less_Suc_eq_0_disj split: sum.splits nat.splits)
    qed
  qed
qed

lemma dask_compute_map_Inl:
  "(\<exists>e. dask_compute (map g cs) = Inl e) = (\<exists>c\<in>set cs. \<exists>e. g c = Inl e)"
proof (induction cs)
  case Nil
  then show ?case by simp
next
  case (Cons c cs)
  then show ?case
    by (cases "g c"; cases "dask_compute (map g cs)") auto
qed

lemma dask_compute_map_error:
  "dask_compute (map g cs) = Inl e \<Longrightarrow> \<exists>c\<in>set cs. g c = Inl e"
proof (induction cs)
  case Nil
  then show ?case by simp
next
  case (Cons c cs)
  then show ?case
    by (cases "g c"; cases "dask_compute (map g cs)") auto
qed

lemma run_batch_single:
  "run_batch X fs data_folder fig_folder [city] =
     (case city_tasks X fs data_folder fig_folder city of Inl e \<Rightarrow> Inl e | Inr x \<Rightarrow> Inr [x])"
  by (simp add: run_batch_map split: sum.splits)

text \<open>
  Claim C3, as the code has it. The cities of a batch are computed each from its own
  files, and the batch returns exactly when every city on its own returns: then its
  result holds, city by city, the figure that the city alone gives. When a city fails
  on its own, \<^verbatim>\<open>dask.compute\<close> raises: the batch returns the error of a failing
  city and no list, so nothing is recorded for the failing city and nothing is
  returned for the others.
\<close>

theorem batch_is_all_or_nothing:
  "(run_batch X fs data_folder fig_folder cities = Inr figs) =
     (length figs = length cities
      \<and> (\<forall>i<length cities.
            run_batch X fs data_folder fig_folder [cities ! i] = Inr [figs ! i]))
   \<and> (\<exists>e. run_batch X fs data_folder fig_folder cities = Inl e) =
     (\<exists>city\<in>set cities. \<exists>e. run_batch X fs data_folder fig_folder [city] = Inl e)
   \<and> (run_batch X fs data_folder fig_folder cities = Inl e \<longrightarrow>
        (\<exists>city\<in>set cities. run_batch X fs data_folder fig_folder [city] = Inl e))"
proof -
  have one: "(run_batch X fs data_folder fig_folder [c] = Inr [x])
               = (city_tasks X fs data_folder fig_folder c = Inr x)" for c x
    by (simp add: run_batch_single split: sum.splits)
  have fail: "(run_batch X fs data_folder fig_folder [c] = Inl e)
               = (city_tasks X fs data_folder fig_folder c = Inl e)" for c e
    by (simp add: run_batch_single split: sum.splits)
  show ?thesis
    unfolding one fail
    by (auto simp add: run_batch_map dask_compute_map_Inr dask_compute_map_Inl
          dest: dask_compute_map_error)
qed

lemma delft_task:
  "accessibility_task example delft_nodes delft_edges delft_parks delft_buildings = Inr delft_scored"
  using delft_accessibility by (simp add: accessibility_task_def delft_def)

lemma delft_plot:
  "plot example city delft_parks delft_scored [''fig''] = Inr (delft_figure city)"
  by (simp add: plot_def getitem_def delft_scored_def delft_parks_def example_def
        delft_figure_def)

lemma city_B:
  "run_batch example three_cities [''data''] [''fig''] [''B''] = Inr [delft_figure ''B'']"
  by (simp add: run_batch_single city_tasks_def load_features_def read_file_def
        three_cities_def delft_task delft_plot)

lemma city_C:
  "run_batch example three_cities [''data''] [''fig''] [''C''] = Inr [delft_figure ''C'']"
  by (simp add: run_batch_single city_tasks_def load_features_def read_file_def
        three_cities_def delft_task delft_plot)

theorem batch_is_all_or_nothing_witness:
  "run_batch example three_cities [''data''] [''fig''] [''B'', ''C'']
     = Inr [delft_figure ''B'', delft_figure ''C'']"
proof -
  have "length [delft_figure ''B'', delft_figure ''C''] = length [''B'', ''C'']
      \<and> (\<forall>i<length [''B'', ''C''].
            run_batch example three_cities [''data''] [''fig''] [[''B'', ''C''] ! i]
              = Inr [[delft_figure ''B'', delft_figure ''C''] ! i])"
    using city_B city_C by (simp add: less_Suc_eq_0_disj numeral_2_eq_2)
  with batch_is_all_or_nothing [of example three_cities "[''data'']" "[''fig'']" "[''B'', ''C'']"
         "[delft_figure ''B'', delft_figure ''C'']"]
  show ?thesis by blast
qed

text \<open>
  The claim as stated fails for the batch of A and B: the edge file of A does not
  parse, the batch returns FormatError and no figure, although B on its own gives
  its figure.
\<close>

theorem failing_city_fails_the_batch:
  "run_batch example three_cities [''data''] [''fig''] [''A'', ''B''] = Inl FormatError
   \<and> load_features three_cities [''data''] ''A'' ''edges'' = Inl FormatError
   \<and> run_batch example three_cities [''data''] [''fig''] [''B''] = Inr [delft_figure ''B'']"
  using city_B
  by (simp add: run_batch_map city_tasks_def load_features_def read_file_def three_cities_def)

end
